theory Spec2Isabelle
  imports Main "HOL-Library.Word"
begin

section \<open>The program graph\<close>

text \<open>
  The pass of \<^verbatim>\<open>transform_map_for_cpu.cc\<close> rewrites the operations of one function.
  An \<^verbatim>\<open>Operation *\<close> is an identifier; the graph maps identifiers to what the
  pass reads of an operation: its kind (what \<^verbatim>\<open>isa\<close> and \<^verbatim>\<open>dyn_cast\<close> test), its
  parent operation (\<^verbatim>\<open>getParentOp\<close>), its users (\<^verbatim>\<open>getUsers\<close>, one entry per use, so
  an operation that reads a result twice is listed twice), the names of its attributes
  (labels are unit attributes) and, for a map, its number of loops (\<^verbatim>\<open>getNumLoops\<close>).
  Every operation nested in the function has a parent operation; the function
  operation itself is one of the identifiers.
\<close>

type_synonym op_id = nat

datatype op_kind =
    MapOp
  | BroadcastOp
  | FillOp
  | CollapseShapeOp
  | ExpandShapeOp
  | ForallOp
  | ForOp
  | ConstantIndexOp "64 word"
  | OtherOp

record operation =
  kind :: op_kind
  parentOp :: op_id
  users :: "op_id list"
  attrs :: "string set"
  numLoops :: nat

text \<open>
  \<open>funcOps\<close> lists the operations nested in the function, in the order in which
  \<^verbatim>\<open>f.walk\<close> visits them; \<open>nextId\<close> is the identifier the next created operation gets.
\<close>

record ir =
  funcOps :: "op_id list"
  opInfo :: "op_id \<Rightarrow> operation"
  nextId :: op_id

datatype LogicalResult = success | failure

datatype error = CastFailure

subsection \<open>Labels\<close>

text \<open>
  Modelled from the spec: the label constants \<^verbatim>\<open>kTransformedLabel\<close> and
  \<^verbatim>\<open>kPerfectlyTiledLoopLabel\<close> and the helpers \<^verbatim>\<open>hasLabel\<close>, \<^verbatim>\<open>setLabel\<close> and
  \<^verbatim>\<open>removeLabel\<close> are declared in \<^verbatim>\<open>gml_st/transforms/transforms.h\<close>, which is not among
  the sources. The spec: a label is a transient marker attached to a node, with values
  \<open>transformed\<close> and \<open>perfectly-tiled-loop\<close>.
\<close>

definition kTransformedLabel :: string where
  "kTransformedLabel = ''transformed''"

definition kPerfectlyTiledLoopLabel :: string where
  "kPerfectlyTiledLoopLabel = ''perfectly-tiled-loop''"

definition hasLabel :: "ir \<Rightarrow> op_id \<Rightarrow> string \<Rightarrow> bool" where
  "hasLabel g x l = (l \<in> attrs (opInfo g x))"

definition setLabel :: "ir \<Rightarrow> op_id \<Rightarrow> string \<Rightarrow> ir" where
  "setLabel g x l =
     g\<lparr>opInfo := (opInfo g)(x := (opInfo g x)\<lparr>attrs := insert l (attrs (opInfo g x))\<rparr>)\<rparr>"

definition removeLabel :: "ir \<Rightarrow> op_id \<Rightarrow> string \<Rightarrow> ir" where
  "removeLabel g x l =
     g\<lparr>opInfo := (opInfo g)(x := (opInfo g x)\<lparr>attrs := attrs (opInfo g x) - {l}\<rparr>)\<rparr>"

section \<open>The root of the fusion cluster\<close>

text \<open>
  \<^verbatim>\<open>TileMapPattern::findRootMap\<close>: the \<^verbatim>\<open>while\<close> loop over \<open>curOp\<close> and \<open>rootMap\<close>.
  The loop has no bound of its own, so not returning is the value \<open>None\<close>.
\<close>

partial_function (option) findRootMap_loop ::
  "ir \<Rightarrow> (op_id \<Rightarrow> bool) \<Rightarrow> op_id \<Rightarrow> op_id \<Rightarrow> op_id option" where
  "findRootMap_loop g fuseFilterFn curOp rootMap =
     (if fuseFilterFn curOp then
        (let us = users (opInfo g curOp) in
         if length us \<noteq> 1 then Some rootMap
         else findRootMap_loop g fuseFilterFn (us ! 0)
                (if kind (opInfo g (us ! 0)) = MapOp then us ! 0 else rootMap))
      else Some rootMap)"

declare findRootMap_loop.simps [code]

definition findRootMap :: "ir \<Rightarrow> op_id \<Rightarrow> (op_id \<Rightarrow> bool) \<Rightarrow> op_id option" where
  "findRootMap g op fuseFilterFn = findRootMap_loop g fuseFilterFn op op"

text \<open>
  The walk as the specification words it: a chain of nodes, each but the last fusible
  and with exactly one consumer, the next node of the chain; the last node is where the
  walk stops, because it is not fusible or does not have exactly one consumer.
\<close>

fun fusionChain :: "ir \<Rightarrow> (op_id \<Rightarrow> bool) \<Rightarrow> op_id list \<Rightarrow> bool" where
  "fusionChain g isFusible [] = False"
| "fusionChain g isFusible [x] =
     (\<not> isFusible x \<or> length (users (opInfo g x)) \<noteq> 1)"
| "fusionChain g isFusible (x # y # p) =
     (isFusible x \<and> users (opInfo g x) = [y] \<and> fusionChain g isFusible (y # p))"

definition isMap :: "ir \<Rightarrow> op_id \<Rightarrow> bool" where
  "isMap g x = (kind (opInfo g x) = MapOp)"

section \<open>Collaborators\<close>

text \<open>
  A rewrite pattern is rooted at one kind of operation
  (\<^verbatim>\<open>OpRewritePattern<linalg::MapOp>\<close>) and rewrites the graph at an operation of that
  kind, reporting success or failure; \<open>None\<close> is a rewrite that does not return.
\<close>

record pattern =
  rootKind :: op_kind
  rewrite :: "ir \<Rightarrow> op_id \<Rightarrow> (LogicalResult \<times> ir) option"

text \<open>
  Modelled from the spec: the result types of the tiling driver and of the peeling
  driver are declared in \<^verbatim>\<open>gml_st/transforms/transforms.h\<close> and
  \<^verbatim>\<open>gml_st/transforms/peeling/peeling.h\<close>, which are not among the sources. The spec:
  \<open>tile(root, tileSizePolicy, fusibilityPredicate) -> TiledLoop | failure\<close> and
  \<open>peel(loop) -> {mainLoop, remainderRegions}\<close>. The pattern reads the field
  \<^verbatim>\<open>loop\<close> of the former and hands the latter on as it is.
\<close>

record GMLSTTilingResult =
  loop :: op_id

record GmlStPeelingResult =
  mainLoop :: op_id
  remainderRegions :: "op_id list"

text \<open>
  The functions the pass calls and whose code is not among the sources are parameters:
  each takes the graph (the rewriter's state) and returns it as it leaves it.
  \<^verbatim>\<open>tileUsingSCFForallOpAndFuseGreedily\<close> returns \<open>None\<close> for \<^verbatim>\<open>failure()\<close>.
\<close>

type_synonym tile_size_fn = "ir \<Rightarrow> op_id \<Rightarrow> op_id \<Rightarrow> error + (op_id list \<times> ir)"

record collaborators =
  isDegenerateReshapeOp :: "ir \<Rightarrow> op_id \<Rightarrow> bool"
  tileUsingSCFForallOpAndFuseGreedily ::
    "ir \<Rightarrow> op_id \<Rightarrow> tile_size_fn \<Rightarrow> (ir \<Rightarrow> op_id \<Rightarrow> bool) \<Rightarrow> GMLSTTilingResult option \<times> ir"
  peelAllLoops :: "op_id \<Rightarrow> ir \<Rightarrow> GmlStPeelingResult \<times> ir"
  tilePeeledOpsToScalars ::
    "ir \<Rightarrow> GmlStPeelingResult \<Rightarrow> (ir \<Rightarrow> op_id \<Rightarrow> bool) \<Rightarrow> LogicalResult \<times> ir"
  populateCollapseForallOpDimensionsPattern :: "pattern list \<Rightarrow> pattern list"
  applyPatternsAndFoldGreedily :: "ir \<Rightarrow> pattern list \<Rightarrow> (LogicalResult \<times> ir) option"

section \<open>The tile sizes\<close>

text \<open>
  \<^verbatim>\<open>b.create<arith::ConstantIndexOp>(loc, v)\<close>: a new constant operation under the
  builder's insertion parent \<open>ip\<close>; the \<^verbatim>\<open>Value\<close> it returns is identified with the
  operation that defines it.
\<close>

definition createConstantIndexOp :: "ir \<Rightarrow> op_id \<Rightarrow> 64 word \<Rightarrow> op_id \<times> ir" where
  "createConstantIndexOp b ip v =
     (nextId b,
      b\<lparr>funcOps := funcOps b @ [nextId b],
        opInfo := (opInfo b)(nextId b :=
          \<lparr>kind = ConstantIndexOp v, parentOp = ip, users = [], attrs = {}, numLoops = 0\<rparr>),
        nextId := Suc (nextId b)\<rparr>)"

definition constantOf :: "ir \<Rightarrow> op_id \<Rightarrow> 64 word option" where
  "constantOf g v = (case kind (opInfo g v) of ConstantIndexOp c \<Rightarrow> Some c | _ \<Rightarrow> None)"

text \<open>
  The closure given to \<^verbatim>\<open>setTileSizeComputationFunction\<close> in \<^verbatim>\<open>matchAndRewrite\<close>.
  \<^verbatim>\<open>cast<linalg::MapOp>\<close> asserts that the operation is a map. The constant 1 is
  created once, before the vector is filled with it, whatever the number of loops.
\<close>

definition tileSizeComputationFunction :: "64 word \<Rightarrow> tile_size_fn" where
  "tileSizeComputationFunction innerDimTileSize b ip op =
     (if kind (opInfo b op) \<noteq> MapOp then Inl CastFailure
      else
        let n = numLoops (opInfo b op);
            (one, b1) = createConstantIndexOp b ip 1;
            tiles = replicate n one
        in if tiles \<noteq> [] then
             (let (t, b2) = createConstantIndexOp b1 ip innerDimTileSize
              in Inr (tiles[length tiles - 1 := t], b2))
           else Inr (tiles, b1))"

section \<open>The rewrite pattern\<close>

definition fuseFilterFn :: "collaborators \<Rightarrow> ir \<Rightarrow> op_id \<Rightarrow> bool" where
  "fuseFilterFn C g op =
     (if kind (opInfo g op) = CollapseShapeOp then isDegenerateReshapeOp C g op
      else if kind (opInfo g op) = ExpandShapeOp then isDegenerateReshapeOp C g op
      else kind (opInfo g op) \<in> {BroadcastOp, FillOp, MapOp})"

text \<open>
  \<^verbatim>\<open>TileMapPattern::matchAndRewrite\<close>. The graph \<open>rewriter\<close> is threaded through the
  calls in the order of the source; the result is the \<^verbatim>\<open>LogicalResult\<close> and the graph
  as the call leaves it.
\<close>

definition matchAndRewrite ::
  "collaborators \<Rightarrow> 64 word \<Rightarrow> ir \<Rightarrow> op_id \<Rightarrow> (LogicalResult \<times> ir) option" where
  "matchAndRewrite C innerDimTileSize rewriter op =
     (if hasLabel rewriter op kTransformedLabel then Some (failure, rewriter)
      else if kind (opInfo rewriter (parentOp (opInfo rewriter op))) \<in> {ForallOp, ForOp}
      then Some (failure, rewriter)
      else
        case findRootMap rewriter op (fuseFilterFn C rewriter) of
          None \<Rightarrow> None
        | Some root \<Rightarrow>
            if hasLabel rewriter root kTransformedLabel then Some (failure, rewriter)
            else
              (case tileUsingSCFForallOpAndFuseGreedily C rewriter root
                      (tileSizeComputationFunction innerDimTileSize) (fuseFilterFn C) of
                 (None, r1) \<Rightarrow> Some (failure, r1)
               | (Some tiledLoop, r1) \<Rightarrow>
                   (let (peelingResult, r2) = peelAllLoops C (loop tiledLoop) r1;
                        r3 = setLabel r2 (loop tiledLoop) kPerfectlyTiledLoopLabel
                    in Some (tilePeeledOpsToScalars C r3 peelingResult (fuseFilterFn C)))))"

definition TileMapPattern :: "collaborators \<Rightarrow> 64 word \<Rightarrow> pattern" where
  "TileMapPattern C innerDimTileSize =
     \<lparr>rootKind = MapOp, rewrite = matchAndRewrite C innerDimTileSize\<rparr>"

section \<open>The pass\<close>

datatype pass_result = PassSucceeded | PassFailed

text \<open>\<^verbatim>\<open>f.walk([](linalg::MapOp op) { removeLabel(op, kTransformedLabel); })\<close>\<close>

definition walkMapOps :: "ir \<Rightarrow> ir" where
  "walkMapOps f =
     fold (\<lambda>op g. if kind (opInfo g op) = MapOp then removeLabel g op kTransformedLabel else g)
       (funcOps f) f"

text \<open>
  \<^verbatim>\<open>TransformMapForCpuPass::runOnOperation\<close>; \<open>PassFailed\<close> is \<^verbatim>\<open>signalPassFailure()\<close>.
\<close>

definition runOnOperation ::
  "collaborators \<Rightarrow> 64 word \<Rightarrow> ir \<Rightarrow> (pass_result \<times> ir) option" where
  "runOnOperation C tileSize f =
     (let patterns = populateCollapseForallOpDimensionsPattern C [TileMapPattern C tileSize]
      in case applyPatternsAndFoldGreedily C f patterns of
           None \<Rightarrow> None
         | Some (res, f1) \<Rightarrow>
             if res = failure then Some (PassFailed, f1)
             else Some (PassSucceeded, walkMapOps f1))"

text \<open>
  What the walk leaves of operation \<open>x\<close> when it has visited the operations \<open>xs\<close> of
  the graph \<open>g\<close>: a visited map without the label \<open>transformed\<close>, anything else as it
  was.
\<close>

definition stripped :: "ir \<Rightarrow> op_id list \<Rightarrow> op_id \<Rightarrow> operation" where
  "stripped g xs x =
     (if x \<in> set xs \<and> kind (opInfo g x) = MapOp
      then (opInfo g x)\<lparr>attrs := attrs (opInfo g x) - {kTransformedLabel}\<rparr>
      else opInfo g x)"

section \<open>Sample graphs and sample collaborators\<close>

text \<open>
  Concrete inputs at which the theorems below are evaluated. The sample collaborators
  are one instance of the parameters: a tiling driver that asks for the tile sizes,
  fails for an empty tile-size vector and otherwise wraps the root in a new
  \<^verbatim>\<open>scf.forall\<close> loop and labels the tiled map \<open>transformed\<close>; a peeling driver that
  peels in place and finds no remainder; a scalarization step that reports a fixed
  result; and a greedy driver that sweeps over the operations of the function, applies
  each pattern rooted at an operation's kind, and gives up after \<open>maxIterations\<close> sweeps
  that changed something.
\<close>

definition mkOp :: "op_kind \<Rightarrow> op_id \<Rightarrow> op_id list \<Rightarrow> string set \<Rightarrow> nat \<Rightarrow> operation" where
  "mkOp k p us as n = \<lparr>kind = k, parentOp = p, users = us, attrs = as, numLoops = n\<rparr>"

definition sampleTile ::
  "ir \<Rightarrow> op_id \<Rightarrow> tile_size_fn \<Rightarrow> (ir \<Rightarrow> op_id \<Rightarrow> bool) \<Rightarrow> GMLSTTilingResult option \<times> ir" where
  "sampleTile g root opts flt =
     (case opts g (parentOp (opInfo g root)) root of
        Inl e \<Rightarrow> (None, g)
      | Inr (tiles, g1) \<Rightarrow>
          if tiles = [] then (None, g)
          else
            (let l = nextId g1
             in (Some \<lparr>loop = l\<rparr>,
                 g1\<lparr>funcOps := funcOps g1 @ [l],
                    opInfo := (opInfo g1)
                      (l := mkOp ForallOp (parentOp (opInfo g1 root)) (users (opInfo g1 root)) {} 0,
                       root := mkOp MapOp l [] (insert kTransformedLabel (attrs (opInfo g1 root)))
                                 (numLoops (opInfo g1 root))),
                    nextId := Suc l\<rparr>)))"

definition samplePeel :: "op_id \<Rightarrow> ir \<Rightarrow> GmlStPeelingResult \<times> ir" where
  "samplePeel l g = (\<lparr>mainLoop = l, remainderRegions = []\<rparr>, g)"

fun applyPatternsTo :: "pattern list \<Rightarrow> op_id \<Rightarrow> ir \<Rightarrow> (bool \<times> ir) option" where
  "applyPatternsTo [] x g = Some (False, g)"
| "applyPatternsTo (p # ps) x g =
     (if rootKind p = kind (opInfo g x) then
        (case rewrite p g x of
           None \<Rightarrow> None
         | Some (res, g1) \<Rightarrow> if res = success then Some (True, g1) else applyPatternsTo ps x g1)
      else applyPatternsTo ps x g)"

fun sweep :: "pattern list \<Rightarrow> op_id list \<Rightarrow> ir \<Rightarrow> (bool \<times> ir) option" where
  "sweep ps [] g = Some (False, g)"
| "sweep ps (x # xs) g =
     (case applyPatternsTo ps x g of
        None \<Rightarrow> None
      | Some (c1, g1) \<Rightarrow>
          (case sweep ps xs g1 of
             None \<Rightarrow> None
           | Some (c2, g2) \<Rightarrow> Some (c1 \<or> c2, g2)))"

fun sampleGreedy :: "nat \<Rightarrow> ir \<Rightarrow> pattern list \<Rightarrow> (LogicalResult \<times> ir) option" where
  "sampleGreedy 0 g ps = Some (failure, g)"
| "sampleGreedy (Suc maxIterations) g ps =
     (case sweep ps (funcOps g) g of
        None \<Rightarrow> None
      | Some (changed, g1) \<Rightarrow>
          if changed then sampleGreedy maxIterations g1 ps else Some (success, g1))"

definition sampleCollaborators :: "LogicalResult \<Rightarrow> nat \<Rightarrow> collaborators" where
  "sampleCollaborators scalarized maxIterations =
     \<lparr>isDegenerateReshapeOp = (\<lambda>g x. True),
      tileUsingSCFForallOpAndFuseGreedily = sampleTile,
      peelAllLoops = samplePeel,
      tilePeeledOpsToScalars = (\<lambda>g pr flt. (scalarized, g)),
      populateCollapseForallOpDimensionsPattern = (\<lambda>ps. ps),
      applyPatternsAndFoldGreedily = sampleGreedy maxIterations\<rparr>"

text \<open>
  \<open>chainGraph l\<close>: the function (0) holds \<open>fill (1) -> map (2) -> map (3)\<close>, the
  result of map 3 feeds the two maps 4 and 5, and map 3 carries the labels \<open>l\<close>.
\<close>

definition chainGraph :: "string set \<Rightarrow> ir" where
  "chainGraph l =
     \<lparr>funcOps = [1, 2, 3, 4, 5],
      opInfo = (\<lambda>x. mkOp OtherOp 0 [] {} 0)
        (1 := mkOp FillOp 0 [2] {} 2,
         2 := mkOp MapOp 0 [3] {} 2,
         3 := mkOp MapOp 0 [4, 5] l 2,
         4 := mkOp MapOp 0 [] {} 2,
         5 := mkOp MapOp 0 [] {} 2),
      nextId = 6\<rparr>"

text \<open>
  \<open>oneMap l p k\<close>: the function (0) holds one map (2) of rank 1 with the labels \<open>l\<close>,
  nested in operation 1 of kind \<open>k\<close>, which is nested in operation \<open>p\<close>; operation 3 is
  an \<^verbatim>\<open>scf.forall\<close> loop of the function that carries the label \<open>transformed\<close>.
\<close>

definition oneMap :: "string set \<Rightarrow> op_id \<Rightarrow> op_kind \<Rightarrow> ir" where
  "oneMap l p k =
     \<lparr>funcOps = [1, 2, 3],
      opInfo = (\<lambda>x. mkOp OtherOp 0 [] {} 0)
        (1 := mkOp k p [] {} 0,
         2 := mkOp MapOp 1 [] l 1,
         3 := mkOp ForallOp 0 [] {kTransformedLabel} 0),
      nextId = 4\<rparr>"

text \<open>
  \<open>tiledOneMap\<close>: the graph \<open>oneMap {} 0 OtherOp\<close> as the sample tiling driver leaves
  it for the root 2 and the innermost tile size 8; the new loop is operation 6.
\<close>

definition tiledOneMap :: ir where
  "tiledOneMap =
     snd (sampleTile (oneMap {} 0 OtherOp) 2 (tileSizeComputationFunction 8) (\<lambda>g x. True))"

text \<open>
  \<open>rankZeroMap\<close>: the function (0) holds one map (2) of rank 0; the sample tiling
  driver fails on it.
\<close>

definition rankZeroMap :: ir where
  "rankZeroMap =
     \<lparr>funcOps = [2],
      opInfo = (\<lambda>x. mkOp OtherOp 0 [] {} 0)(2 := mkOp MapOp 0 [] {} 0),
      nextId = 3\<rparr>"



section \<open>Properties of the root finder\<close>

lemma findRootMap_loop_stop:
  "\<not> f x \<or> length (users (opInfo g x)) \<noteq> 1 \<Longrightarrow> findRootMap_loop g f x r = Some r"
  by (subst findRootMap_loop.simps) (auto simp: Let_def)

lemma findRootMap_loop_step:
  "f x \<Longrightarrow> users (opInfo g x) = [y] \<Longrightarrow>
   findRootMap_loop g f x r = findRootMap_loop g f y (if isMap g y then y else r)"
  by (subst findRootMap_loop.simps) (simp add: isMap_def)

lemma findRootMap_loop_chain:
  "fusionChain g f (x # p) \<Longrightarrow>
   findRootMap_loop g f x r = Some (last (r # filter (isMap g) p))"
proof (induction p arbitrary: x r)
  case Nil
  then show ?case by (simp add: findRootMap_loop_stop)
next
  case (Cons y p)
  from Cons.prems have fx: "f x" and us: "users (opInfo g x) = [y]"
    and rest: "fusionChain g f (y # p)"
    by simp_all
  have "findRootMap_loop g f x r = findRootMap_loop g f y (if isMap g y then y else r)"
    using fx us by (rule findRootMap_loop_step)
  then show ?case
    using Cons.IH [OF rest] by simp
qed

lemma fusionChain_exists:
  assumes topo: "\<And>x u. u \<in> set (users (opInfo g x)) \<Longrightarrow> rank x < rank u \<and> rank u \<le> (n::nat)"
  shows "\<exists>p. fusionChain g f (x # p)"
proof (induction "n - rank x" arbitrary: x rule: less_induct)
  case less
  show ?case
  proof (cases "f x \<and> length (users (opInfo g x)) = 1")
    case False
    then have "fusionChain g f [x]" by auto
    then show ?thesis by blast
  next
    case True
    then obtain y where us: "users (opInfo g x) = [y]"
      by (cases "users (opInfo g x)") auto
    then have "rank x < rank y \<and> rank y \<le> n" using topo [of y x] by simp
    then have "n - rank y < n - rank x" by arith
    from less [OF this] obtain q where "fusionChain g f (y # q)" by blast
    with True us have "fusionChain g f (x # y # q)" by simp
    then show ?thesis by blast
  qed
qed

text \<open>
  C1. From a starting node \<open>op\<close>, \<open>findRootMap\<close> follows the chain of single consumers
  while the current node satisfies the predicate and has exactly one user, and returns
  the last map node it landed on (the starting node when it landed on none) as soon as
  the predicate fails or the number of users is not one. A node with two or more users
  is returned as its own root, and so is a node at which the walk stops at once. In a
  graph whose users come later in a topological order such a chain exists from every
  node, so the function returns.
\<close>

theorem findRootMap_follows_chain:
  "(fusionChain g f (op # p) \<longrightarrow>
      findRootMap g op f = Some (last (op # filter (isMap g) p)))
   \<and> (2 \<le> length (users (opInfo g op)) \<longrightarrow> findRootMap g op f = Some op)
   \<and> (\<not> f op \<or> length (users (opInfo g op)) \<noteq> 1 \<longrightarrow> findRootMap g op f = Some op)
   \<and> ((\<forall>x u. u \<in> set (users (opInfo g x)) \<longrightarrow> rank x < rank u \<and> rank u \<le> (n::nat)) \<longrightarrow>
        (\<exists>q. fusionChain g f (op # q)
           \<and> findRootMap g op f = Some (last (op # filter (isMap g) q))))"
proof (intro conjI impI)
  assume "fusionChain g f (op # p)"
  then show "findRootMap g op f = Some (last (op # filter (isMap g) p))"
    unfolding findRootMap_def by (rule findRootMap_loop_chain)
next
  assume "2 \<le> length (users (opInfo g op))"
  then have "\<not> f op \<or> length (users (opInfo g op)) \<noteq> 1" by simp
  then show "findRootMap g op f = Some op"
    unfolding findRootMap_def by (rule findRootMap_loop_stop)
next
  assume "\<not> f op \<or> length (users (opInfo g op)) \<noteq> 1"
  then show "findRootMap g op f = Some op"
    unfolding findRootMap_def by (rule findRootMap_loop_stop)
next
  assume "\<forall>x u. u \<in> set (users (opInfo g x)) \<longrightarrow> rank x < rank u \<and> rank u \<le> n"
  then have "\<exists>q. fusionChain g f (op # q)"
    using fusionChain_exists [of g rank n f op] by blast
  then obtain q where q: "fusionChain g f (op # q)" ..
  then have "findRootMap g op f = Some (last (op # filter (isMap g) q))"
    unfolding findRootMap_def by (rule findRootMap_loop_chain)
  with q show "\<exists>q. fusionChain g f (op # q)
           \<and> findRootMap g op f = Some (last (op # filter (isMap g) q))" by blast
qed

theorem findRootMap_follows_chain_witness:
  "fusionChain (chainGraph {}) (fuseFilterFn (sampleCollaborators success 10) (chainGraph {})) [2, 3]
   \<and> findRootMap (chainGraph {}) 2 (fuseFilterFn (sampleCollaborators success 10) (chainGraph {}))
       = Some 3
   \<and> 2 \<le> length (users (opInfo (chainGraph {}) 3))
   \<and> findRootMap (chainGraph {}) 3 (fuseFilterFn (sampleCollaborators success 10) (chainGraph {}))
       = Some 3
   \<and> (\<exists>q. fusionChain (chainGraph {})
             (fuseFilterFn (sampleCollaborators success 10) (chainGraph {})) (1 # q)
          \<and> findRootMap (chainGraph {}) 1
               (fuseFilterFn (sampleCollaborators success 10) (chainGraph {}))
             = Some (last (1 # filter (isMap (chainGraph {})) q)))"
proof -
  let ?f = "fuseFilterFn (sampleCollaborators success 10) (chainGraph {})"
  have chain: "fusionChain (chainGraph {}) ?f [2, 3]"
    by (simp add: chainGraph_def mkOp_def fuseFilterFn_def)
  have fan: "2 \<le> length (users (opInfo (chainGraph {}) 3))"
    by (simp add: chainGraph_def mkOp_def)
  have topo: "\<forall>x u. u \<in> set (users (opInfo (chainGraph {}) x)) \<longrightarrow> id x < id u \<and> id u \<le> (5::nat)"
    by (auto simp: chainGraph_def mkOp_def split: if_splits)
  have m: "isMap (chainGraph {}) 3"
    by (simp add: isMap_def chainGraph_def mkOp_def)
  have r2: "findRootMap (chainGraph {}) 2 ?f = Some 3"
    using findRootMap_follows_chain [of "chainGraph {}" ?f 2 "[3]" id 5] chain m by simp
  have r3: "findRootMap (chainGraph {}) 3 ?f = Some 3"
    using findRootMap_follows_chain [of "chainGraph {}" ?f 3 "[]" id 5] fan by simp
  have r1: "\<exists>q. fusionChain (chainGraph {}) ?f (1 # q)
          \<and> findRootMap (chainGraph {}) 1 ?f = Some (last (1 # filter (isMap (chainGraph {})) q))"
    using findRootMap_follows_chain [of "chainGraph {}" ?f 1 "[]" id 5] topo by blast
  from chain r2 fan r3 r1 show ?thesis by blast
qed

section \<open>Properties of the tile sizes\<close>

lemma replicate_update_last:
  "(replicate (Suc n) a)[n := b] = replicate n a @ [b]"
  by (induction n) simp_all

text \<open>
  C2. For a map node with \<open>R\<close> loops and the configured innermost tile size \<open>T\<close>, the
  tile-size computation function returns a vector of exactly \<open>R\<close> values; the constants
  behind them are all 1 except the last, which is \<open>T\<close>, when \<open>R \<ge> 1\<close>, and the vector
  is empty when \<open>R = 0\<close>.
\<close>

theorem tileSizes_shape:
  "kind (opInfo b op) = MapOp \<and> numLoops (opInfo b op) = R \<longrightarrow>
     (\<exists>tiles b'. tileSizeComputationFunction T b ip op = Inr (tiles, b')
        \<and> length tiles = R
        \<and> map (constantOf b') tiles = (if R = 0 then [] else replicate (R - 1) (Some 1) @ [Some T])
        \<and> (R = 0 \<longrightarrow> tiles = []))"
proof (intro impI, elim conjE)
  assume k: "kind (opInfo b op) = MapOp" and n: "numLoops (opInfo b op) = R"
  show "\<exists>tiles b'. tileSizeComputationFunction T b ip op = Inr (tiles, b')
        \<and> length tiles = R
        \<and> map (constantOf b') tiles = (if R = 0 then [] else replicate (R - 1) (Some 1) @ [Some T])
        \<and> (R = 0 \<longrightarrow> tiles = [])"
  proof (cases R)
    case 0
    with k n show ?thesis
      by (simp add: tileSizeComputationFunction_def createConstantIndexOp_def Let_def)
  next
    case (Suc m)
    with k n show ?thesis
      by (simp add: tileSizeComputationFunction_def createConstantIndexOp_def Let_def
          replicate_update_last constantOf_def del: replicate_Suc)
  qed
qed

theorem tileSizes_shape_witness:
  "kind (opInfo (chainGraph {}) 2) = MapOp \<and> numLoops (opInfo (chainGraph {}) 2) = 2
   \<and> (\<exists>tiles b'. tileSizeComputationFunction 8 (chainGraph {}) 0 2 = Inr (tiles, b')
        \<and> length tiles = 2 \<and> map (constantOf b') tiles = [Some 1, Some 8])"
proof -
  have h: "kind (opInfo (chainGraph {}) 2) = MapOp \<and> numLoops (opInfo (chainGraph {}) 2) = 2"
    by (simp add: chainGraph_def mkOp_def)
  from tileSizes_shape [of "chainGraph {}" 2 2 8 0] h
  have "\<exists>tiles b'. tileSizeComputationFunction 8 (chainGraph {}) 0 2 = Inr (tiles, b')
        \<and> length tiles = 2 \<and> map (constantOf b') tiles = [Some 1, Some 8]"
    by simp
  with h show ?thesis by blast
qed

section \<open>Properties of the rewrite pattern\<close>

subsection \<open>The pattern at the sample graphs\<close>

lemmas eval_defs =
  matchAndRewrite_def sampleCollaborators_def sampleTile_def samplePeel_def mkOp_def
  tileSizeComputationFunction_def createConstantIndexOp_def
  kTransformedLabel_def kPerfectlyTiledLoopLabel_def hasLabel_def setLabel_def
  oneMap_def findRootMap_def findRootMap_loop.simps fuseFilterFn_def Let_def

lemma findRootMap_chainGraph:
  "findRootMap (chainGraph l) 2 (fuseFilterFn C (chainGraph l)) = Some 3"
  by (simp add: findRootMap_def findRootMap_loop.simps fuseFilterFn_def chainGraph_def mkOp_def)

lemma findRootMap_oneMap:
  "findRootMap (oneMap l p k) 2 (fuseFilterFn C (oneMap l p k)) = Some 2"
  by (simp add: findRootMap_def findRootMap_loop.simps fuseFilterFn_def oneMap_def mkOp_def)

lemma sample_preconditions:
  "\<not> hasLabel (oneMap {} 0 OtherOp) 2 kTransformedLabel
   \<and> kind (opInfo (oneMap {} 0 OtherOp) (parentOp (opInfo (oneMap {} 0 OtherOp) 2)))
        \<notin> {ForallOp, ForOp}
   \<and> findRootMap (oneMap {} 0 OtherOp) 2
        (fuseFilterFn (sampleCollaborators r n) (oneMap {} 0 OtherOp)) = Some 2"
  by (simp add: findRootMap_oneMap) (simp add: hasLabel_def oneMap_def mkOp_def)

lemma sample_tiling:
  "tileUsingSCFForallOpAndFuseGreedily (sampleCollaborators r n) (oneMap {} 0 OtherOp) 2
     (tileSizeComputationFunction 8) (fuseFilterFn (sampleCollaborators r n))
   = (Some \<lparr>loop = 6\<rparr>, tiledOneMap)"
  by (simp add: tiledOneMap_def sampleCollaborators_def sampleTile_def mkOp_def
      tileSizeComputationFunction_def createConstantIndexOp_def oneMap_def Let_def)

lemma sample_peeling:
  "peelAllLoops (sampleCollaborators r n) 6 tiledOneMap
   = (\<lparr>mainLoop = 6, remainderRegions = []\<rparr>, tiledOneMap)"
  by (simp add: sampleCollaborators_def samplePeel_def)

lemma sample_rewrite_funcOps:
  "map_option (funcOps \<circ> snd)
     (matchAndRewrite (sampleCollaborators failure 10) 8 (oneMap {} 0 OtherOp) 2)
   = Some [1, 2, 3, 4, 5, 6]"
  by (simp add: eval_defs)



lemma rankZeroMap_facts:
  "\<not> hasLabel rankZeroMap 2 kTransformedLabel"
  "kind (opInfo rankZeroMap (parentOp (opInfo rankZeroMap 2))) \<notin> {ForallOp, ForOp}"
  "findRootMap rankZeroMap 2 (fuseFilterFn C rankZeroMap) = Some 2"
  "tileUsingSCFForallOpAndFuseGreedily (sampleCollaborators r n) rankZeroMap 2
     (tileSizeComputationFunction 8) (fuseFilterFn (sampleCollaborators r n))
   = (None, rankZeroMap)"
  by (simp_all add: hasLabel_def rankZeroMap_def mkOp_def findRootMap_def
      findRootMap_loop.simps fuseFilterFn_def sampleCollaborators_def sampleTile_def
      tileSizeComputationFunction_def createConstantIndexOp_def Let_def)

subsection \<open>Non-matches\<close>

text \<open>
  C6. The pattern reports failure and returns the graph as it was when the node already
  carries the label \<open>transformed\<close>, when the node's parent operation is an
  \<^verbatim>\<open>scf.forall\<close> or \<^verbatim>\<open>scf.for\<close> loop, and when the fusion root found for the node carries
  the label \<open>transformed\<close>.
\<close>

theorem matchAndRewrite_non_match:
  "(hasLabel g op kTransformedLabel \<longrightarrow> matchAndRewrite C T g op = Some (failure, g))
   \<and> (kind (opInfo g (parentOp (opInfo g op))) \<in> {ForallOp, ForOp} \<longrightarrow>
        matchAndRewrite C T g op = Some (failure, g))
   \<and> (findRootMap g op (fuseFilterFn C g) = Some root \<and> hasLabel g root kTransformedLabel \<longrightarrow>
        matchAndRewrite C T g op = Some (failure, g))"
  by (simp add: matchAndRewrite_def)

theorem matchAndRewrite_non_match_witness:
  "hasLabel (oneMap {kTransformedLabel} 0 OtherOp) 2 kTransformedLabel
   \<and> matchAndRewrite (sampleCollaborators success 10) 8 (oneMap {kTransformedLabel} 0 OtherOp) 2
       = Some (failure, oneMap {kTransformedLabel} 0 OtherOp)
   \<and> kind (opInfo (oneMap {} 0 ForallOp) (parentOp (opInfo (oneMap {} 0 ForallOp) 2)))
        \<in> {ForallOp, ForOp}
   \<and> matchAndRewrite (sampleCollaborators success 10) 8 (oneMap {} 0 ForallOp) 2
       = Some (failure, oneMap {} 0 ForallOp)
   \<and> findRootMap (chainGraph {kTransformedLabel}) 2
        (fuseFilterFn (sampleCollaborators success 10) (chainGraph {kTransformedLabel})) = Some 3
   \<and> hasLabel (chainGraph {kTransformedLabel}) 3 kTransformedLabel
   \<and> matchAndRewrite (sampleCollaborators success 10) 8 (chainGraph {kTransformedLabel}) 2
       = Some (failure, chainGraph {kTransformedLabel})"
proof -
  let ?C = "sampleCollaborators success 10"
  have a: "hasLabel (oneMap {kTransformedLabel} 0 OtherOp) 2 kTransformedLabel"
    by (simp add: hasLabel_def oneMap_def mkOp_def)
  have b: "kind (opInfo (oneMap {} 0 ForallOp) (parentOp (opInfo (oneMap {} 0 ForallOp) 2)))
             \<in> {ForallOp, ForOp}"
    by (simp add: oneMap_def mkOp_def)
  have c1: "findRootMap (chainGraph {kTransformedLabel}) 2
        (fuseFilterFn ?C (chainGraph {kTransformedLabel})) = Some 3"
    by (rule findRootMap_chainGraph)
  have c2: "hasLabel (chainGraph {kTransformedLabel}) 3 kTransformedLabel"
    by (simp add: hasLabel_def chainGraph_def mkOp_def)
  from a matchAndRewrite_non_match [of "oneMap {kTransformedLabel} 0 OtherOp" 2 ?C 8]
  have ra: "matchAndRewrite ?C 8 (oneMap {kTransformedLabel} 0 OtherOp) 2
       = Some (failure, oneMap {kTransformedLabel} 0 OtherOp)" by blast
  from b matchAndRewrite_non_match [of "oneMap {} 0 ForallOp" 2 ?C 8]
  have rb: "matchAndRewrite ?C 8 (oneMap {} 0 ForallOp) 2 = Some (failure, oneMap {} 0 ForallOp)"
    by blast
  from c1 c2 matchAndRewrite_non_match [of "chainGraph {kTransformedLabel}" 2 ?C 8 3]
  have rc: "matchAndRewrite ?C 8 (chainGraph {kTransformedLabel}) 2
       = Some (failure, chainGraph {kTransformedLabel})" by blast
  from a ra b rb c1 c2 rc show ?thesis by blast
qed

text \<open>
  C10. The nesting check reads the kind of the immediate parent only. A node without
  the label \<open>transformed\<close> is turned away by it when its parent is an \<^verbatim>\<open>scf.forall\<close> or
  \<^verbatim>\<open>scf.for\<close> loop, whatever else is known of that loop; when the parent is of any other
  kind the pattern goes on to the root and to the tiling driver, whatever the operations
  further up are.
\<close>

theorem nesting_check_immediate_parent:
  "\<not> hasLabel g op kTransformedLabel \<longrightarrow>
     (kind (opInfo g (parentOp (opInfo g op))) \<in> {ForallOp, ForOp} \<longrightarrow>
        matchAndRewrite C T g op = Some (failure, g))
   \<and> (kind (opInfo g (parentOp (opInfo g op))) \<notin> {ForallOp, ForOp}
        \<and> findRootMap g op (fuseFilterFn C g) = Some root
        \<and> \<not> hasLabel g root kTransformedLabel \<longrightarrow>
        matchAndRewrite C T g op =
          (case tileUsingSCFForallOpAndFuseGreedily C g root
                  (tileSizeComputationFunction T) (fuseFilterFn C) of
             (None, r1) \<Rightarrow> Some (failure, r1)
           | (Some tiledLoop, r1) \<Rightarrow>
               Some (tilePeeledOpsToScalars C
                      (setLabel (snd (peelAllLoops C (loop tiledLoop) r1)) (loop tiledLoop)
                         kPerfectlyTiledLoopLabel)
                      (fst (peelAllLoops C (loop tiledLoop) r1)) (fuseFilterFn C))))"
  by (simp add: matchAndRewrite_def Let_def split: prod.splits option.splits)

theorem nesting_check_immediate_parent_witness:
  "\<not> hasLabel (oneMap {} 0 ForOp) 2 kTransformedLabel
   \<and> kind (opInfo (oneMap {} 0 ForOp) (parentOp (opInfo (oneMap {} 0 ForOp) 2)))
        \<in> {ForallOp, ForOp}
   \<and> matchAndRewrite (sampleCollaborators success 10) 8 (oneMap {} 0 ForOp) 2
       = Some (failure, oneMap {} 0 ForOp)
   \<and> \<not> hasLabel (oneMap {} 3 OtherOp) 2 kTransformedLabel
   \<and> kind (opInfo (oneMap {} 3 OtherOp) (parentOp (opInfo (oneMap {} 3 OtherOp) 2)))
        \<notin> {ForallOp, ForOp}
   \<and> kind (opInfo (oneMap {} 3 OtherOp)
        (parentOp (opInfo (oneMap {} 3 OtherOp) (parentOp (opInfo (oneMap {} 3 OtherOp) 2)))))
        = ForallOp
   \<and> findRootMap (oneMap {} 3 OtherOp) 2
        (fuseFilterFn (sampleCollaborators success 10) (oneMap {} 3 OtherOp)) = Some 2
   \<and> map_option fst (matchAndRewrite (sampleCollaborators success 10) 8 (oneMap {} 3 OtherOp) 2)
       = Some success"
proof -
  let ?C = "sampleCollaborators success 10"
  let ?g = "oneMap {} 0 ForOp"
  let ?h = "oneMap {} 3 OtherOp"
  have a1: "\<not> hasLabel ?g 2 kTransformedLabel"
    by (simp add: hasLabel_def oneMap_def mkOp_def)
  have a2: "kind (opInfo ?g (parentOp (opInfo ?g 2))) \<in> {ForallOp, ForOp}"
    by (simp add: oneMap_def mkOp_def)
  have a3: "matchAndRewrite ?C 8 ?g 2 = Some (failure, ?g)"
    using nesting_check_immediate_parent [of ?g 2 ?C 8] a1 a2 by blast
  have b1: "\<not> hasLabel ?h 2 kTransformedLabel"
    by (simp add: hasLabel_def oneMap_def mkOp_def)
  have b2: "kind (opInfo ?h (parentOp (opInfo ?h 2))) \<notin> {ForallOp, ForOp}"
    by (simp add: oneMap_def mkOp_def)
  have b3: "kind (opInfo ?h (parentOp (opInfo ?h (parentOp (opInfo ?h 2))))) = ForallOp"
    by (simp add: oneMap_def mkOp_def)
  have b4: "findRootMap ?h 2 (fuseFilterFn ?C ?h) = Some 2"
    by (rule findRootMap_oneMap)
  have "matchAndRewrite ?C 8 ?h 2 =
          (case tileUsingSCFForallOpAndFuseGreedily ?C ?h 2
                  (tileSizeComputationFunction 8) (fuseFilterFn ?C) of
             (None, r1) \<Rightarrow> Some (failure, r1)
           | (Some tiledLoop, r1) \<Rightarrow>
               Some (tilePeeledOpsToScalars ?C
                      (setLabel (snd (peelAllLoops ?C (loop tiledLoop) r1)) (loop tiledLoop)
                         kPerfectlyTiledLoopLabel)
                      (fst (peelAllLoops ?C (loop tiledLoop) r1)) (fuseFilterFn ?C)))"
    using nesting_check_immediate_parent [of ?h 2 ?C 8 2] b1 b2 b4 by blast
  then have b5: "map_option fst (matchAndRewrite ?C 8 ?h 2) = Some success"
    by (simp add: sampleCollaborators_def sampleTile_def samplePeel_def mkOp_def
        tileSizeComputationFunction_def createConstantIndexOp_def oneMap_def Let_def)
  from a1 a2 a3 b1 b2 b3 b4 b5 show ?thesis by blast
qed

subsection \<open>Peeling, the label of the tiled loop, and scalarization\<close>




text \<open>
  C9. When tiling-and-fusion succeeds and the scalarization step then fails, the
  pattern reports failure with the graph the scalarization step returns; the graph that
  step was given is the peeled graph with the label \<open>perfectly-tiled-loop\<close> already set
  on the tiled loop. A scalarization step that fails without touching its graph thus
  leaves the peeled graph and the label in place.
\<close>

theorem label_set_before_scalarization_result:
  "\<not> hasLabel g op kTransformedLabel
   \<and> kind (opInfo g (parentOp (opInfo g op))) \<notin> {ForallOp, ForOp}
   \<and> findRootMap g op (fuseFilterFn C g) = Some root
   \<and> \<not> hasLabel g root kTransformedLabel
   \<and> tileUsingSCFForallOpAndFuseGreedily C g root (tileSizeComputationFunction T) (fuseFilterFn C)
       = (Some tiledLoop, r1)
   \<and> peelAllLoops C (loop tiledLoop) r1 = (peelingResult, r2)
   \<and> tilePeeledOpsToScalars C (setLabel r2 (loop tiledLoop) kPerfectlyTiledLoopLabel)
        peelingResult (fuseFilterFn C) = (failure, r3) \<longrightarrow>
     matchAndRewrite C T g op = Some (failure, r3)
   \<and> hasLabel (setLabel r2 (loop tiledLoop) kPerfectlyTiledLoopLabel) (loop tiledLoop)
        kPerfectlyTiledLoopLabel
   \<and> (r3 = setLabel r2 (loop tiledLoop) kPerfectlyTiledLoopLabel \<longrightarrow>
        hasLabel r3 (loop tiledLoop) kPerfectlyTiledLoopLabel
        \<and> funcOps r3 = funcOps r2 \<and> nextId r3 = nextId r2
        \<and> (\<forall>x. x \<noteq> loop tiledLoop \<longrightarrow> opInfo r3 x = opInfo r2 x))"
  by (simp add: matchAndRewrite_def hasLabel_def setLabel_def)

theorem label_set_before_scalarization_result_witness:
  "matchAndRewrite (sampleCollaborators failure 10) 8 (oneMap {} 0 OtherOp) 2
     = Some (failure, setLabel tiledOneMap 6 kPerfectlyTiledLoopLabel)
   \<and> hasLabel (setLabel tiledOneMap 6 kPerfectlyTiledLoopLabel) 6 kPerfectlyTiledLoopLabel
   \<and> funcOps (setLabel tiledOneMap 6 kPerfectlyTiledLoopLabel) = funcOps tiledOneMap"
proof -
  let ?C = "sampleCollaborators failure 10"
  let ?g = "oneMap {} 0 OtherOp"
  have pre: "\<not> hasLabel ?g 2 kTransformedLabel
     \<and> kind (opInfo ?g (parentOp (opInfo ?g 2))) \<notin> {ForallOp, ForOp}
     \<and> findRootMap ?g 2 (fuseFilterFn ?C ?g) = Some 2"
    by (rule sample_preconditions)
  have tile: "tileUsingSCFForallOpAndFuseGreedily ?C ?g 2 (tileSizeComputationFunction 8)
      (fuseFilterFn ?C) = (Some \<lparr>loop = 6\<rparr>, tiledOneMap)"
    by (rule sample_tiling)
  have peel: "peelAllLoops ?C (loop \<lparr>loop = 6\<rparr>) tiledOneMap
      = (\<lparr>mainLoop = 6, remainderRegions = []\<rparr>, tiledOneMap)"
    by (simp add: sample_peeling)
  have scal: "tilePeeledOpsToScalars ?C
      (setLabel tiledOneMap (loop \<lparr>loop = 6\<rparr>) kPerfectlyTiledLoopLabel)
      \<lparr>mainLoop = 6, remainderRegions = []\<rparr> (fuseFilterFn ?C)
      = (failure, setLabel tiledOneMap 6 kPerfectlyTiledLoopLabel)"
    by (simp add: sampleCollaborators_def)
  from label_set_before_scalarization_result
    [of ?g 2 ?C 2 8 "\<lparr>loop = 6\<rparr>" tiledOneMap "\<lparr>mainLoop = 6, remainderRegions = []\<rparr>"
        tiledOneMap "setLabel tiledOneMap 6 kPerfectlyTiledLoopLabel"]
    pre tile peel scal
  show ?thesis by simp
qed

subsection \<open>Success and failure of the pattern\<close>

text \<open>
  The claim that every failure leaves the graph unmodified does not hold: with the
  sample collaborators and a failing scalarization step the pattern reports failure for
  the map 2 of \<open>oneMap {} 0 OtherOp\<close> and returns a graph that is not the one it was
  given (it holds the two constants and the loop the tiling driver created).
\<close>

theorem failure_after_tiling_changes_graph:
  "map_option fst (matchAndRewrite (sampleCollaborators failure 10) 8 (oneMap {} 0 OtherOp) 2)
     = Some failure
   \<and> map_option snd (matchAndRewrite (sampleCollaborators failure 10) 8 (oneMap {} 0 OtherOp) 2)
     \<noteq> Some (oneMap {} 0 OtherOp)"
proof
  show "map_option fst (matchAndRewrite (sampleCollaborators failure 10) 8 (oneMap {} 0 OtherOp) 2)
     = Some failure"
    by (simp add: eval_defs)
next
  let ?M = "matchAndRewrite (sampleCollaborators failure 10) 8 (oneMap {} 0 OtherOp) 2"
  show "map_option snd ?M \<noteq> Some (oneMap {} 0 OtherOp)"
  proof
    assume "map_option snd ?M = Some (oneMap {} 0 OtherOp)"
    then have "map_option funcOps (map_option snd ?M)
        = map_option funcOps (Some (oneMap {} 0 OtherOp))"
      by (rule arg_cong)
    then have "map_option (funcOps \<circ> snd) ?M = Some (funcOps (oneMap {} 0 OtherOp))"
      by (simp only: option.map_comp option.map)
    then have "funcOps (oneMap {} 0 OtherOp) = [1, 2, 3, 4, 5, 6]"
      by (simp only: sample_rewrite_funcOps option.inject)
    then show False by (simp add: oneMap_def)
  qed
qed

text \<open>
  C3 (amended). The pattern reports success only if tiling-and-fusion succeeds and the
  scalarization step reports success; the peeling driver has no failure result. At the
  label check, the nesting check and the check of the root's label the pattern reports
  failure with the graph as it was. When tiling-and-fusion fails it reports failure with
  the graph as the tiling driver left it. Once tiling-and-fusion has succeeded it
  returns the result and the graph of the scalarization step, run on the peeled and
  labelled graph: a failure of that step is reported with the graph that step returns,
  not with the graph the pattern was given.
\<close>

theorem matchAndRewrite_outcomes:
  "(matchAndRewrite C T g op = Some (success, g') \<longrightarrow>
      (\<exists>root tiledLoop r1.
          findRootMap g op (fuseFilterFn C g) = Some root
        \<and> tileUsingSCFForallOpAndFuseGreedily C g root (tileSizeComputationFunction T)
             (fuseFilterFn C) = (Some tiledLoop, r1)
        \<and> tilePeeledOpsToScalars C
             (setLabel (snd (peelAllLoops C (loop tiledLoop) r1)) (loop tiledLoop)
                kPerfectlyTiledLoopLabel)
             (fst (peelAllLoops C (loop tiledLoop) r1)) (fuseFilterFn C) = (success, g')))
   \<and> (hasLabel g op kTransformedLabel
        \<or> kind (opInfo g (parentOp (opInfo g op))) \<in> {ForallOp, ForOp} \<longrightarrow>
        matchAndRewrite C T g op = Some (failure, g))
   \<and> (\<not> hasLabel g op kTransformedLabel
        \<and> kind (opInfo g (parentOp (opInfo g op))) \<notin> {ForallOp, ForOp}
        \<and> findRootMap g op (fuseFilterFn C g) = Some root \<longrightarrow>
        (hasLabel g root kTransformedLabel \<longrightarrow> matchAndRewrite C T g op = Some (failure, g))
      \<and> (\<not> hasLabel g root kTransformedLabel \<longrightarrow>
           (\<forall>r1. tileUsingSCFForallOpAndFuseGreedily C g root (tileSizeComputationFunction T)
                   (fuseFilterFn C) = (None, r1) \<longrightarrow>
                 matchAndRewrite C T g op = Some (failure, r1))
         \<and> (\<forall>tiledLoop r1 res r3.
                 tileUsingSCFForallOpAndFuseGreedily C g root (tileSizeComputationFunction T)
                   (fuseFilterFn C) = (Some tiledLoop, r1)
               \<and> tilePeeledOpsToScalars C
                   (setLabel (snd (peelAllLoops C (loop tiledLoop) r1)) (loop tiledLoop)
                      kPerfectlyTiledLoopLabel)
                   (fst (peelAllLoops C (loop tiledLoop) r1)) (fuseFilterFn C) = (res, r3) \<longrightarrow>
                 matchAndRewrite C T g op = Some (res, r3))))"
proof (intro conjI impI allI)
  assume "matchAndRewrite C T g op = Some (success, g')"
  then show "\<exists>root tiledLoop r1.
          findRootMap g op (fuseFilterFn C g) = Some root
        \<and> tileUsingSCFForallOpAndFuseGreedily C g root (tileSizeComputationFunction T)
             (fuseFilterFn C) = (Some tiledLoop, r1)
        \<and> tilePeeledOpsToScalars C
             (setLabel (snd (peelAllLoops C (loop tiledLoop) r1)) (loop tiledLoop)
                kPerfectlyTiledLoopLabel)
             (fst (peelAllLoops C (loop tiledLoop) r1)) (fuseFilterFn C) = (success, g')"
    by (auto simp: matchAndRewrite_def Let_def split: if_splits option.splits prod.splits)
qed (auto simp: matchAndRewrite_def Let_def split: prod.splits)

theorem matchAndRewrite_outcomes_witness:
  "matchAndRewrite (sampleCollaborators success 10) 8 (oneMap {} 0 OtherOp) 2
     = Some (success, setLabel tiledOneMap 6 kPerfectlyTiledLoopLabel)
   \<and> (\<exists>root tiledLoop r1.
          findRootMap (oneMap {} 0 OtherOp) 2
            (fuseFilterFn (sampleCollaborators success 10) (oneMap {} 0 OtherOp)) = Some root
        \<and> tileUsingSCFForallOpAndFuseGreedily (sampleCollaborators success 10)
             (oneMap {} 0 OtherOp) root (tileSizeComputationFunction 8)
             (fuseFilterFn (sampleCollaborators success 10)) = (Some tiledLoop, r1))
   \<and> matchAndRewrite (sampleCollaborators success 10) 8 (oneMap {kTransformedLabel} 0 OtherOp) 2
     = Some (failure, oneMap {kTransformedLabel} 0 OtherOp)
   \<and> matchAndRewrite (sampleCollaborators success 10) 8 (chainGraph {kTransformedLabel}) 2
     = Some (failure, chainGraph {kTransformedLabel})
   \<and> matchAndRewrite (sampleCollaborators success 10) 8 rankZeroMap 2
     = Some (failure, rankZeroMap)
   \<and> matchAndRewrite (sampleCollaborators failure 10) 8 (oneMap {} 0 OtherOp) 2
     = Some (failure, setLabel tiledOneMap 6 kPerfectlyTiledLoopLabel)"
proof -
  let ?S = "sampleCollaborators success 10"
  let ?F = "sampleCollaborators failure 10"
  let ?g = "oneMap {} 0 OtherOp"
  let ?X = "setLabel tiledOneMap 6 kPerfectlyTiledLoopLabel"
  have scalS: "tilePeeledOpsToScalars ?S
      (setLabel (snd (peelAllLoops ?S (loop \<lparr>loop = 6\<rparr>) tiledOneMap)) (loop \<lparr>loop = 6\<rparr>)
         kPerfectlyTiledLoopLabel)
      (fst (peelAllLoops ?S (loop \<lparr>loop = 6\<rparr>) tiledOneMap)) (fuseFilterFn ?S) = (success, ?X)"
    by (simp add: sampleCollaborators_def samplePeel_def)
  have scalF: "tilePeeledOpsToScalars ?F
      (setLabel (snd (peelAllLoops ?F (loop \<lparr>loop = 6\<rparr>) tiledOneMap)) (loop \<lparr>loop = 6\<rparr>)
         kPerfectlyTiledLoopLabel)
      (fst (peelAllLoops ?F (loop \<lparr>loop = 6\<rparr>) tiledOneMap)) (fuseFilterFn ?F) = (failure, ?X)"
    by (simp add: sampleCollaborators_def samplePeel_def)
  have a: "matchAndRewrite ?S 8 ?g 2 = Some (success, ?X)"
    using matchAndRewrite_outcomes [of ?S 8 ?g 2 ?X 2]
      sample_preconditions [of success 10] sample_tiling [of success 10] scalS
    by blast
  have b: "\<exists>root tiledLoop r1.
          findRootMap ?g 2 (fuseFilterFn ?S ?g) = Some root
        \<and> tileUsingSCFForallOpAndFuseGreedily ?S ?g root (tileSizeComputationFunction 8)
             (fuseFilterFn ?S) = (Some tiledLoop, r1)"
    using matchAndRewrite_outcomes [of ?S 8 ?g 2 ?X 2] a by blast
  have lab: "hasLabel (oneMap {kTransformedLabel} 0 OtherOp) 2 kTransformedLabel"
    by (simp add: hasLabel_def oneMap_def mkOp_def)
  have c: "matchAndRewrite ?S 8 (oneMap {kTransformedLabel} 0 OtherOp) 2
     = Some (failure, oneMap {kTransformedLabel} 0 OtherOp)"
    using matchAndRewrite_outcomes [of ?S 8 "oneMap {kTransformedLabel} 0 OtherOp" 2 ?X 2] lab
    by blast
  let ?h = "chainGraph {kTransformedLabel}"
  have ch: "\<not> hasLabel ?h 2 kTransformedLabel"
    "kind (opInfo ?h (parentOp (opInfo ?h 2))) \<notin> {ForallOp, ForOp}"
    "hasLabel ?h 3 kTransformedLabel"
    by (simp_all add: hasLabel_def chainGraph_def mkOp_def)
  have d: "matchAndRewrite ?S 8 ?h 2 = Some (failure, ?h)"
    using matchAndRewrite_outcomes [of ?S 8 ?h 2 ?X 3] ch findRootMap_chainGraph [of _ ?S]
    by blast
  have e: "matchAndRewrite ?S 8 rankZeroMap 2 = Some (failure, rankZeroMap)"
    using matchAndRewrite_outcomes [of ?S 8 rankZeroMap 2 ?X 2]
      rankZeroMap_facts(1,2) rankZeroMap_facts(3) [of ?S] rankZeroMap_facts(4) [of success 10]
    by blast
  have f: "matchAndRewrite ?F 8 ?g 2 = Some (failure, ?X)"
    using matchAndRewrite_outcomes [of ?F 8 ?g 2 ?X 2]
      sample_preconditions [of failure 10] sample_tiling [of failure 10] scalF
    by blast
  from a b c d e f show ?thesis by blast
qed

section \<open>Properties of the pass\<close>

subsection \<open>The final walk\<close>

lemma fold_removeLabel:
  "fold (\<lambda>op g. if kind (opInfo g op) = MapOp then removeLabel g op kTransformedLabel else g) xs g
   = g\<lparr>opInfo := stripped g xs\<rparr>"
proof (induction xs arbitrary: g)
  case Nil
  have "stripped g [] = opInfo g" by (simp add: stripped_def fun_eq_iff)
  then show ?case by simp
next
  case (Cons a xs)
  show ?case
  proof (cases "kind (opInfo g a) = MapOp")
    case False
    then have "stripped g (a # xs) = stripped g xs"
      by (auto simp: stripped_def fun_eq_iff)
    with False Cons.IH [of g] show ?thesis by simp
  next
    case True
    have "stripped (removeLabel g a kTransformedLabel) xs = stripped g (a # xs)"
      by (auto simp: stripped_def fun_eq_iff removeLabel_def True)
    with True Cons.IH [of "removeLabel g a kTransformedLabel"] show ?thesis
      by (simp add: removeLabel_def)
  qed
qed

lemma walkMapOps_eq: "walkMapOps f = f\<lparr>opInfo := stripped f (funcOps f)\<rparr>"
  unfolding walkMapOps_def by (rule fold_removeLabel)

lemma walkMapOps_no_label:
  "x \<in> set (funcOps (walkMapOps f)) \<Longrightarrow> kind (opInfo (walkMapOps f) x) = MapOp \<Longrightarrow>
   \<not> hasLabel (walkMapOps f) x kTransformedLabel"
  by (auto simp: walkMapOps_eq stripped_def hasLabel_def split: if_splits)

lemma walkMapOps_frame:
  "funcOps (walkMapOps f) = funcOps f"
  "nextId (walkMapOps f) = nextId f"
  "kind (opInfo (walkMapOps f) x) = kind (opInfo f x)"
  "parentOp (opInfo (walkMapOps f) x) = parentOp (opInfo f x)"
  "kind (opInfo f x) \<noteq> MapOp \<Longrightarrow> opInfo (walkMapOps f) x = opInfo f x"
  by (auto simp: walkMapOps_eq stripped_def)

subsection \<open>The sample greedy driver\<close>

lemma sweep_no_match:
  "\<forall>x \<in> set xs. kind (opInfo g x) = MapOp \<longrightarrow> matchAndRewrite C T g x = Some (failure, g) \<Longrightarrow>
   sweep [TileMapPattern C T] xs g = Some (False, g)"
  by (induction xs) (simp_all add: TileMapPattern_def)

lemma sample_rewrite_success:
  "matchAndRewrite (sampleCollaborators success n) 8 (oneMap {} 0 OtherOp) 2
   = Some (success, setLabel tiledOneMap 6 kPerfectlyTiledLoopLabel)"
  using sample_preconditions [of success n] sample_tiling [of success n]
  by (simp add: matchAndRewrite_def sample_peeling)
     (simp add: sampleCollaborators_def hasLabel_def oneMap_def mkOp_def)

lemma tiledOneMap_funcOps:
  "funcOps (setLabel tiledOneMap 6 kPerfectlyTiledLoopLabel) = [1, 2, 3, 4, 5, 6]"
  by (simp add: tiledOneMap_def sampleTile_def mkOp_def setLabel_def
      tileSizeComputationFunction_def createConstantIndexOp_def oneMap_def Let_def)

lemma tiledOneMap_ops:
  "opInfo (setLabel tiledOneMap 6 kPerfectlyTiledLoopLabel) (Suc 0) = mkOp OtherOp 0 [] {} 0"
  "opInfo (setLabel tiledOneMap 6 kPerfectlyTiledLoopLabel) 2 = mkOp MapOp 6 [] {kTransformedLabel} 1"
  "opInfo (setLabel tiledOneMap 6 kPerfectlyTiledLoopLabel) 3 = mkOp ForallOp 0 [] {kTransformedLabel} 0"
  "opInfo (setLabel tiledOneMap 6 kPerfectlyTiledLoopLabel) 4 = mkOp (ConstantIndexOp 1) 1 [] {} 0"
  "opInfo (setLabel tiledOneMap 6 kPerfectlyTiledLoopLabel) 5 = mkOp (ConstantIndexOp 8) 1 [] {} 0"
  "opInfo (setLabel tiledOneMap 6 kPerfectlyTiledLoopLabel) 6
     = mkOp ForallOp 1 [] {kPerfectlyTiledLoopLabel} 0"
  by (simp_all add: tiledOneMap_def sampleTile_def mkOp_def setLabel_def
      tileSizeComputationFunction_def createConstantIndexOp_def oneMap_def Let_def)

lemma sample_second_sweep:
  "sweep [TileMapPattern (sampleCollaborators success n) 8] [1, 2, 3, 4, 5, 6]
     (setLabel tiledOneMap 6 kPerfectlyTiledLoopLabel)
   = Some (False, setLabel tiledOneMap 6 kPerfectlyTiledLoopLabel)"
  by (rule sweep_no_match)
     (simp add: tiledOneMap_ops mkOp_def matchAndRewrite_def hasLabel_def)

lemma sample_first_sweep:
  "sweep [TileMapPattern (sampleCollaborators success n) 8] (funcOps (oneMap {} 0 OtherOp))
     (oneMap {} 0 OtherOp)
   = Some (True, setLabel tiledOneMap 6 kPerfectlyTiledLoopLabel)"
proof -
  have k: "kind (opInfo (oneMap {} 0 OtherOp) (Suc 0)) = OtherOp"
    "kind (opInfo (oneMap {} 0 OtherOp) 2) = MapOp"
    "funcOps (oneMap {} 0 OtherOp) = [1, 2, 3]"
    by (simp_all add: oneMap_def mkOp_def)
  show ?thesis
    by (simp add: k TileMapPattern_def sample_rewrite_success tiledOneMap_ops mkOp_def)
qed

lemma sample_greedy_converges:
  assumes "2 \<le> m"
  shows "applyPatternsAndFoldGreedily (sampleCollaborators success m) (oneMap {} 0 OtherOp)
     (populateCollapseForallOpDimensionsPattern (sampleCollaborators success m)
        [TileMapPattern (sampleCollaborators success m) 8])
   = Some (success, setLabel tiledOneMap 6 kPerfectlyTiledLoopLabel)"
proof -
  from assms obtain n where m: "m = Suc (Suc n)"
    by (metis Suc_le_D numeral_2_eq_2 Suc_le_mono)
  let ?C = "sampleCollaborators success m"
  have "sampleGreedy (Suc (Suc n)) (oneMap {} 0 OtherOp) [TileMapPattern ?C 8]
      = Some (success, setLabel tiledOneMap 6 kPerfectlyTiledLoopLabel)"
    by (simp only: sampleGreedy.simps sample_first_sweep tiledOneMap_funcOps sample_second_sweep
        option.case prod.case if_True if_False)
  then show ?thesis by (simp add: sampleCollaborators_def m)
qed

lemma sample_greedy_gives_up:
  "applyPatternsAndFoldGreedily (sampleCollaborators success (Suc 0)) (oneMap {} 0 OtherOp)
     (populateCollapseForallOpDimensionsPattern (sampleCollaborators success (Suc 0))
        [TileMapPattern (sampleCollaborators success (Suc 0)) 8])
   = Some (failure, setLabel tiledOneMap 6 kPerfectlyTiledLoopLabel)"
proof -
  let ?C = "sampleCollaborators success (Suc 0)"
  have "sampleGreedy (Suc 0) (oneMap {} 0 OtherOp) [TileMapPattern ?C 8]
      = Some (failure, setLabel tiledOneMap 6 kPerfectlyTiledLoopLabel)"
    by (simp only: sampleGreedy.simps sample_first_sweep option.case prod.case if_True)
  then show ?thesis by (simp add: sampleCollaborators_def)
qed

lemma sample_pass_run:
  "runOnOperation (sampleCollaborators success 10) 8 (oneMap {} 0 OtherOp)
   = Some (PassSucceeded, walkMapOps (setLabel tiledOneMap 6 kPerfectlyTiledLoopLabel))"
  by (simp add: runOnOperation_def sample_greedy_converges)

lemma sample_pass_gives_up:
  "runOnOperation (sampleCollaborators success (Suc 0)) 8 (oneMap {} 0 OtherOp)
   = Some (PassFailed, setLabel tiledOneMap 6 kPerfectlyTiledLoopLabel)"
  by (simp add: runOnOperation_def sample_greedy_gives_up)

subsection \<open>Failure of the greedy driver\<close>

text \<open>
  C8. When the greedy driver reports failure, the pass signals failure and returns at
  once: the graph is the one the greedy driver left, with the rewrites it had applied and
  with nothing undone.
\<close>

theorem pass_failure_keeps_graph:
  "applyPatternsAndFoldGreedily C f
     (populateCollapseForallOpDimensionsPattern C [TileMapPattern C tileSize]) = Some (failure, f1)
   \<longrightarrow> runOnOperation C tileSize f = Some (PassFailed, f1)"
  by (simp add: runOnOperation_def)

theorem pass_failure_keeps_graph_witness:
  "applyPatternsAndFoldGreedily (sampleCollaborators success (Suc 0)) (oneMap {} 0 OtherOp)
     (populateCollapseForallOpDimensionsPattern (sampleCollaborators success (Suc 0))
        [TileMapPattern (sampleCollaborators success (Suc 0)) 8])
     = Some (failure, setLabel tiledOneMap 6 kPerfectlyTiledLoopLabel)
   \<and> runOnOperation (sampleCollaborators success (Suc 0)) 8 (oneMap {} 0 OtherOp)
     = Some (PassFailed, setLabel tiledOneMap 6 kPerfectlyTiledLoopLabel)
   \<and> funcOps (oneMap {} 0 OtherOp) = [1, 2, 3]
   \<and> funcOps (setLabel tiledOneMap 6 kPerfectlyTiledLoopLabel) = [1, 2, 3, 4, 5, 6]
   \<and> hasLabel (setLabel tiledOneMap 6 kPerfectlyTiledLoopLabel) 6 kPerfectlyTiledLoopLabel"
proof -
  let ?C = "sampleCollaborators success (Suc 0)"
  let ?X = "setLabel tiledOneMap 6 kPerfectlyTiledLoopLabel"
  have a: "applyPatternsAndFoldGreedily ?C (oneMap {} 0 OtherOp)
     (populateCollapseForallOpDimensionsPattern ?C [TileMapPattern ?C 8]) = Some (failure, ?X)"
    by (rule sample_greedy_gives_up)
  with pass_failure_keeps_graph [of ?C "oneMap {} 0 OtherOp" 8 ?X]
  have b: "runOnOperation ?C 8 (oneMap {} 0 OtherOp) = Some (PassFailed, ?X)"
    by blast
  have c: "funcOps (oneMap {} 0 OtherOp) = [1, 2, 3]"
    by (simp add: oneMap_def)
  have d: "hasLabel ?X 6 kPerfectlyTiledLoopLabel"
    by (simp add: hasLabel_def tiledOneMap_ops mkOp_def)
  from a b c d tiledOneMap_funcOps show ?thesis by blast
qed

subsection \<open>The label \<open>transformed\<close> after the pass\<close>

text \<open>
  The claim that no map and no loop carries the label \<open>transformed\<close> when the pass
  returns does not hold. With the sample collaborators, the pass succeeds on
  \<open>oneMap {} 0 OtherOp\<close> and the loop 3, which carried the label in the input, still
  carries it: the final walk visits maps only. With a greedy driver that gives up after
  one sweep the pass fails, returns before the walk, and the map 2 carries the label the
  tiling driver gave it.
\<close>

theorem transformed_label_left_behind:
  "runOnOperation (sampleCollaborators success 10) 8 (oneMap {} 0 OtherOp)
     = Some (PassSucceeded, walkMapOps (setLabel tiledOneMap 6 kPerfectlyTiledLoopLabel))
   \<and> 3 \<in> set (funcOps (walkMapOps (setLabel tiledOneMap 6 kPerfectlyTiledLoopLabel)))
   \<and> kind (opInfo (walkMapOps (setLabel tiledOneMap 6 kPerfectlyTiledLoopLabel)) 3) = ForallOp
   \<and> hasLabel (walkMapOps (setLabel tiledOneMap 6 kPerfectlyTiledLoopLabel)) 3 kTransformedLabel
   \<and> runOnOperation (sampleCollaborators success (Suc 0)) 8 (oneMap {} 0 OtherOp)
     = Some (PassFailed, setLabel tiledOneMap 6 kPerfectlyTiledLoopLabel)
   \<and> 2 \<in> set (funcOps (setLabel tiledOneMap 6 kPerfectlyTiledLoopLabel))
   \<and> kind (opInfo (setLabel tiledOneMap 6 kPerfectlyTiledLoopLabel) 2) = MapOp
   \<and> hasLabel (setLabel tiledOneMap 6 kPerfectlyTiledLoopLabel) 2 kTransformedLabel"
  by (simp add: sample_pass_run sample_pass_gives_up walkMapOps_frame tiledOneMap_funcOps
      tiledOneMap_ops mkOp_def hasLabel_def)

text \<open>
  C4 (amended). When the greedy driver reports success, the pass succeeds and returns
  the graph the greedy driver left with the label \<open>transformed\<close> removed from every map
  node of the function and nothing else changed: no map node of the function carries the
  label, and every other operation, a loop among them, is returned as it was, labels
  included.
\<close>

theorem map_labels_stripped_on_success:
  "applyPatternsAndFoldGreedily C f
     (populateCollapseForallOpDimensionsPattern C [TileMapPattern C tileSize]) = Some (success, f1)
   \<longrightarrow> (\<exists>f2. runOnOperation C tileSize f = Some (PassSucceeded, f2)
          \<and> f2 = f1\<lparr>opInfo := (\<lambda>x.
                 if x \<in> set (funcOps f1) \<and> kind (opInfo f1 x) = MapOp
                 then (opInfo f1 x)\<lparr>attrs := attrs (opInfo f1 x) - {kTransformedLabel}\<rparr>
                 else opInfo f1 x)\<rparr>
          \<and> (\<forall>op \<in> set (funcOps f2). kind (opInfo f2 op) = MapOp \<longrightarrow>
                \<not> hasLabel f2 op kTransformedLabel))"
proof
  assume driver: "applyPatternsAndFoldGreedily C f
     (populateCollapseForallOpDimensionsPattern C [TileMapPattern C tileSize]) = Some (success, f1)"
  have shape: "walkMapOps f1 = f1\<lparr>opInfo := (\<lambda>x.
                 if x \<in> set (funcOps f1) \<and> kind (opInfo f1 x) = MapOp
                 then (opInfo f1 x)\<lparr>attrs := attrs (opInfo f1 x) - {kTransformedLabel}\<rparr>
                 else opInfo f1 x)\<rparr>"
    by (simp add: walkMapOps_eq stripped_def fun_eq_iff)
  have run: "runOnOperation C tileSize f = Some (PassSucceeded, walkMapOps f1)"
    using driver by (simp add: runOnOperation_def)
  have clean: "\<forall>op \<in> set (funcOps (walkMapOps f1)). kind (opInfo (walkMapOps f1) op) = MapOp \<longrightarrow>
                \<not> hasLabel (walkMapOps f1) op kTransformedLabel"
    by (simp add: walkMapOps_no_label)
  from run shape clean
  show "\<exists>f2. runOnOperation C tileSize f = Some (PassSucceeded, f2)
          \<and> f2 = f1\<lparr>opInfo := (\<lambda>x.
                 if x \<in> set (funcOps f1) \<and> kind (opInfo f1 x) = MapOp
                 then (opInfo f1 x)\<lparr>attrs := attrs (opInfo f1 x) - {kTransformedLabel}\<rparr>
                 else opInfo f1 x)\<rparr>
          \<and> (\<forall>op \<in> set (funcOps f2). kind (opInfo f2 op) = MapOp \<longrightarrow>
                \<not> hasLabel f2 op kTransformedLabel)"
    by (intro exI [of _ "walkMapOps f1"]) simp
qed

theorem map_labels_stripped_on_success_witness:
  "\<exists>f2. runOnOperation (sampleCollaborators success 10) 8 (oneMap {} 0 OtherOp)
          = Some (PassSucceeded, f2)
     \<and> funcOps f2 = [1, 2, 3, 4, 5, 6]
     \<and> hasLabel (setLabel tiledOneMap 6 kPerfectlyTiledLoopLabel) 2 kTransformedLabel
     \<and> opInfo f2 2 = mkOp MapOp 6 [] {} 1
     \<and> \<not> hasLabel f2 2 kTransformedLabel
     \<and> opInfo f2 3 = mkOp ForallOp 0 [] {kTransformedLabel} 0
     \<and> opInfo f2 6 = mkOp ForallOp 1 [] {kPerfectlyTiledLoopLabel} 0"
proof -
  let ?C = "sampleCollaborators success 10"
  let ?X = "setLabel tiledOneMap 6 kPerfectlyTiledLoopLabel"
  have a: "applyPatternsAndFoldGreedily ?C (oneMap {} 0 OtherOp)
     (populateCollapseForallOpDimensionsPattern ?C [TileMapPattern ?C 8]) = Some (success, ?X)"
    by (simp add: sample_greedy_converges)
  with map_labels_stripped_on_success [of ?C "oneMap {} 0 OtherOp" 8 ?X]
  obtain f2 where run: "runOnOperation ?C 8 (oneMap {} 0 OtherOp) = Some (PassSucceeded, f2)"
    and shape: "f2 = ?X\<lparr>opInfo := (\<lambda>x.
                 if x \<in> set (funcOps ?X) \<and> kind (opInfo ?X x) = MapOp
                 then (opInfo ?X x)\<lparr>attrs := attrs (opInfo ?X x) - {kTransformedLabel}\<rparr>
                 else opInfo ?X x)\<rparr>"
    by blast
  have o: "funcOps f2 = [1, 2, 3, 4, 5, 6]"
    by (simp add: shape tiledOneMap_funcOps)
  have before: "hasLabel ?X 2 kTransformedLabel"
    by (simp add: hasLabel_def tiledOneMap_ops mkOp_def)
  have m: "opInfo f2 2 = mkOp MapOp 6 [] {} 1"
    by (simp add: shape tiledOneMap_funcOps tiledOneMap_ops mkOp_def)
  then have n: "\<not> hasLabel f2 2 kTransformedLabel"
    by (simp add: hasLabel_def mkOp_def)
  have l3: "opInfo f2 3 = mkOp ForallOp 0 [] {kTransformedLabel} 0"
    by (simp add: shape tiledOneMap_funcOps tiledOneMap_ops mkOp_def)
  have l6: "opInfo f2 6 = mkOp ForallOp 1 [] {kPerfectlyTiledLoopLabel} 0"
    by (simp add: shape tiledOneMap_funcOps tiledOneMap_ops mkOp_def)
  from run o before m n l3 l6 show ?thesis by blast
qed

end
